theory Spec2Isabelle
  imports Complex_Main
begin

section \<open>Data model of the triaxial ellipsoid\<close>

text \<open>
  Shallow embedding of \<^verbatim>\<open>boule/_triaxialellipsoid.py\<close>. The class
  \<^verbatim>\<open>TriaxialEllipsoid\<close> is an \<^verbatim>\<open>attr.s(frozen=True)\<close> class with eight
  attributes; it becomes a record. A Python float is a real number here. The validators
  only compare their arguments, and a comparison of doubles is exact. The arithmetic of
  \<open>geocentric_radius\<close> is given twice: in exact real arithmetic (no operation rounds), and
  in IEEE binary64 arithmetic, where every operation rounds its exact result to the nearest
  double. The two agree where no operation rounds, and differ widely for ellipsoids of
  extreme axis ratio.
\<close>

record TriaxialEllipsoid =
  name :: string
  semimajor_axis :: real
  semimedium_axis :: real
  semiminor_axis :: real
  geocentric_grav_const :: real
  angular_velocity :: real
  long_name :: "string option"
  reference :: "string option"

text \<open>
  Both validation failures are a Python \<^verbatim>\<open>ValueError\<close>; they differ in the message.
  The message is kept as a structured value holding exactly the data the f-string
  interpolates:
  \<^item> \<open>InvalidParameter ax v\<close> is
    \<^verbatim>\<open>"Invalid semi-<ax> axis '<v>'. Should be greater than zero."\<close>;
  \<^item> \<open>InvalidAxisOrdering a b c\<close> is
    \<^verbatim>\<open>"Invalid triaxial ellipsoid axis: major=<a> medium=<b> minor=<c>. Must be major > medium > minor."\<close>.
  \<open>ZeroDivisionError\<close> is what Python's float division raises on a zero divisor.
\<close>

datatype axis = SemiMajor | SemiMedium | SemiMinor

datatype message =
    InvalidParameter axis real
  | InvalidAxisOrdering real real real

datatype error = ValueError message | ZeroDivisionError

text \<open>
  \<^verbatim>\<open>warn(f"The geocentric gravitational constant is negative: '{value}'")\<close>:
  a non-fatal \<^verbatim>\<open>UserWarning\<close> carrying the offending value. The warnings issued by a
  construction are returned as a list beside the object.
\<close>

datatype warning = UserWarning real

section \<open>Validators\<close>

text \<open>
  Each validator is called as \<^verbatim>\<open>validator(self, attribute, value)\<close> on the object with
  all its fields already stored; the attribute descriptor is not used by any of them and
  is left out. A validator either raises (\<open>Inl\<close>) or returns nothing (\<open>Inr ()\<close>); the
  last one never raises and returns the warnings it issues.
\<close>

definition raise_invalid_axis :: "TriaxialEllipsoid \<Rightarrow> error + unit" where
  "raise_invalid_axis self =
     Inl (ValueError (InvalidAxisOrdering (semimajor_axis self) (semimedium_axis self)
                        (semiminor_axis self)))"

definition check_semimajor_axis :: "TriaxialEllipsoid \<Rightarrow> real \<Rightarrow> error + unit" where
  "check_semimajor_axis self val =
     (if \<not> val > 0 then Inl (ValueError (InvalidParameter SemiMajor val))
      else if semimedium_axis self > val then raise_invalid_axis self
      else Inr ())"

definition check_semimedium_axis :: "TriaxialEllipsoid \<Rightarrow> real \<Rightarrow> error + unit" where
  "check_semimedium_axis self val =
     (if \<not> val > 0 then Inl (ValueError (InvalidParameter SemiMedium val))
      else if semiminor_axis self > val then raise_invalid_axis self
      else Inr ())"

definition check_semiminor_axis :: "TriaxialEllipsoid \<Rightarrow> real \<Rightarrow> error + unit" where
  "check_semiminor_axis self val =
     (if \<not> val > 0 then Inl (ValueError (InvalidParameter SemiMinor val))
      else Inr ())"

definition check_geocentric_grav_const :: "TriaxialEllipsoid \<Rightarrow> real \<Rightarrow> warning list" where
  "check_geocentric_grav_const self val =
     (if val < 0 then [UserWarning val] else [])"

section \<open>Construction\<close>

text \<open>
  The generated \<^verbatim>\<open>__init__\<close> first stores all eight arguments and then runs the
  validators in the order in which the attributes are declared: semimajor, semimedium,
  semiminor, geocentric gravitational constant. The first exception ends the construction
  and no object is returned.
\<close>

definition TriaxialEllipsoid_init ::
  "string \<Rightarrow> real \<Rightarrow> real \<Rightarrow> real \<Rightarrow> real \<Rightarrow> real \<Rightarrow> string option \<Rightarrow> string option
    \<Rightarrow> error + (TriaxialEllipsoid \<times> warning list)" where
  "TriaxialEllipsoid_init nm a b c gm omega lname rf =
     (let self = \<lparr>name = nm, semimajor_axis = a, semimedium_axis = b, semiminor_axis = c,
                  geocentric_grav_const = gm, angular_velocity = omega,
                  long_name = lname, reference = rf\<rparr>
      in case check_semimajor_axis self (semimajor_axis self) of
           Inl e \<Rightarrow> Inl e
         | Inr _ \<Rightarrow>
        (case check_semimedium_axis self (semimedium_axis self) of
           Inl e \<Rightarrow> Inl e
         | Inr _ \<Rightarrow>
        (case check_semiminor_axis self (semiminor_axis self) of
           Inl e \<Rightarrow> Inl e
         | Inr _ \<Rightarrow>
             Inr (self, check_geocentric_grav_const self (geocentric_grav_const self)))))"

text \<open>Classifiers of a construction result by the kind of failure.\<close>

fun fails_with_InvalidParameter :: "error + 'a \<Rightarrow> bool" where
  "fails_with_InvalidParameter (Inl (ValueError (InvalidParameter ax v))) = True"
| "fails_with_InvalidParameter _ = False"

fun fails_with_InvalidAxisOrdering :: "error + 'a \<Rightarrow> bool" where
  "fails_with_InvalidAxisOrdering (Inl (ValueError (InvalidAxisOrdering a b c))) = True"
| "fails_with_InvalidAxisOrdering _ = False"

section \<open>Derived properties\<close>

definition mean_radius :: "TriaxialEllipsoid \<Rightarrow> real" where
  "mean_radius self =
     (semimajor_axis self + semimedium_axis self + semiminor_axis self) / 3"

definition volume :: "TriaxialEllipsoid \<Rightarrow> real" where
  "volume self =
     (4 / 3 * pi) * semimajor_axis self * semimedium_axis self * semiminor_axis self"

section \<open>Geocentric radius\<close>

text \<open>
  The numeric backend in exact real arithmetic. \<^verbatim>\<open>np.radians\<close> multiplies by \<open>\<pi>/180\<close>. \<^verbatim>\<open>np.sqrt\<close> of a
  negative number is not-a-number, and a NumPy division by zero is an infinity (or
  not-a-number for \<open>0/0\<close>) rather than an exception, so the result of the backend is a
  real number or one of the three special values. The plain Python division
  \<^verbatim>\<open>(a - c) / a\<close> raises on a zero divisor.
\<close>

datatype npfloat = Finite real | PosInf | NegInf | NaN

definition np_radians :: "real \<Rightarrow> real" where
  "np_radians deg = deg * (pi / 180)"

definition np_sqrt :: "real \<Rightarrow> npfloat" where
  "np_sqrt x = (if x < 0 then NaN else Finite (sqrt x))"

fun np_true_divide :: "real \<Rightarrow> npfloat \<Rightarrow> npfloat" where
  "np_true_divide x (Finite y) =
     (if y = 0 then (if x = 0 then NaN else if x > 0 then PosInf else NegInf)
      else Finite (x / y))"
| "np_true_divide x PosInf = Finite 0"
| "np_true_divide x NegInf = Finite 0"
| "np_true_divide x NaN = NaN"

definition py_truediv :: "real \<Rightarrow> real \<Rightarrow> error + real" where
  "py_truediv x y = (if y = 0 then Inl ZeroDivisionError else Inr (x / y))"

text \<open>
  The method \<^verbatim>\<open>geocentric_radius(self, longitude, latitude, longitude_semimajor_axis=0.0)\<close>
  on scalar inputs, in degrees, in exact real arithmetic: the expression of source lines 260
  to 283 with no operation rounding. The default of the third argument is the value \<open>0\<close>.
  This is the value the method computes wherever its double operations are exact (on a
  sphere they all are), and the value it approximates elsewhere.
\<close>

definition geocentric_radius ::
  "TriaxialEllipsoid \<Rightarrow> real \<Rightarrow> real \<Rightarrow> real \<Rightarrow> error + npfloat" where
  "geocentric_radius self longitude latitude longitude_semimajor_axis =
     (let latitude_rad = np_radians latitude;
          longitude_rad = np_radians longitude;
          longitude_semimajor_axis_rad = np_radians longitude_semimajor_axis;
          coslat = cos latitude_rad;
          sinlat = sin latitude_rad;
          a = semimajor_axis self;
          b = semimedium_axis self;
          c = semiminor_axis self
      in case py_truediv (a - c) a of
           Inl e \<Rightarrow> Inl e
         | Inr f1 \<Rightarrow>
        (case py_truediv (a - b) a of
           Inl e \<Rightarrow> Inl e
         | Inr f2 \<Rightarrow>
             Inr (np_true_divide (a * (1 - f1) * (1 - f2))
                   (np_sqrt
                     (1
                      - (2 * f1 - f1\<^sup>2) * coslat\<^sup>2
                      - (2 * f2 - f2\<^sup>2) * sinlat\<^sup>2
                      - (1 - f1)\<^sup>2
                        * (2 * f2 - f2\<^sup>2)
                        * coslat\<^sup>2
                        * (cos (longitude_rad - longitude_semimajor_axis_rad))\<^sup>2)))))"



subsection \<open>The same method in binary64 arithmetic\<close>

text \<open>
  IEEE 754 binary64: a significand of 53 bits, rounding to the nearest double with ties to
  the even significand, gradual underflow below \<open>2 powr (- 1022)\<close>. \<open>round_binary64 x\<close> is
  the double nearest to the real number \<open>x\<close>; the unit in the last place of \<open>x\<close> is
  \<open>2 powr e\<close> with \<open>e = max \<lfloor>log 2 \<bar>x\<bar>\<rfloor> (- 1022) - 52\<close>. The two zeros are not told apart.
\<close>

definition round_half_even :: "real \<Rightarrow> int" where
  "round_half_even q =
     (let n = \<lfloor>q\<rfloor>; r = q - of_int n
      in if r < 1 / 2 then n
         else if 1 / 2 < r then n + 1
         else if even n then n else n + 1)"

definition round_binary64 :: "real \<Rightarrow> real" where
  "round_binary64 x =
     (if x = 0 then 0
      else let e = max \<lfloor>log 2 \<bar>x\<bar>\<rfloor> (- 1022) - 52
           in of_int (round_half_even (x / 2 powr (of_int e))) * 2 powr (of_int e))"

definition binary64_max :: real where
  "binary64_max = (2 ^ 53 - 1) * 2 ^ 971"

text \<open>
  The operations the method uses, each the exact result rounded once: subtraction,
  multiplication, the square \<^verbatim>\<open>x ** 2\<close>, Python's division (which raises on a zero
  divisor), \<^verbatim>\<open>np.radians\<close> (a multiplication by the double constant
  \<^verbatim>\<open>NPY_PI / 180.0\<close>), and \<^verbatim>\<open>np.sqrt\<close>, \<^verbatim>\<open>np.cos\<close>, \<^verbatim>\<open>np.sin\<close>. The last two are
  taken as correctly rounded; the C library guarantees them only to about one unit in the
  last place, and gives the exact values \<open>1\<close> and \<open>0\<close> at the argument \<open>0\<close>, the only argument
  at which they are evaluated below. For axes and angles in the range of the doubles no
  operation before the final division can overflow, so only that division checks for it.
\<close>

definition fsub :: "real \<Rightarrow> real \<Rightarrow> real" where
  "fsub x y = round_binary64 (x - y)"

definition fmul :: "real \<Rightarrow> real \<Rightarrow> real" where
  "fmul x y = round_binary64 (x * y)"

definition fpow2 :: "real \<Rightarrow> real" where
  "fpow2 x = round_binary64 (x * x)"

definition py_truediv_float64 :: "real \<Rightarrow> real \<Rightarrow> error + real" where
  "py_truediv_float64 x y =
     (if y = 0 then Inl ZeroDivisionError else Inr (round_binary64 (x / y)))"

definition np_radians_float64 :: "real \<Rightarrow> real" where
  "np_radians_float64 deg = fmul deg (round_binary64 (round_binary64 pi / 180))"

definition np_cos_float64 :: "real \<Rightarrow> real" where
  "np_cos_float64 x = round_binary64 (cos x)"

definition np_sin_float64 :: "real \<Rightarrow> real" where
  "np_sin_float64 x = round_binary64 (sin x)"

definition np_sqrt_float64 :: "real \<Rightarrow> npfloat" where
  "np_sqrt_float64 x = (if x < 0 then NaN else Finite (round_binary64 (sqrt x)))"

fun np_true_divide_float64 :: "real \<Rightarrow> npfloat \<Rightarrow> npfloat" where
  "np_true_divide_float64 x (Finite y) =
     (if y = 0 then (if x = 0 then NaN else if x > 0 then PosInf else NegInf)
      else let q = round_binary64 (x / y)
           in if q > binary64_max then PosInf
              else if q < - binary64_max then NegInf
              else Finite q)"
| "np_true_divide_float64 x PosInf = Finite 0"
| "np_true_divide_float64 x NegInf = Finite 0"
| "np_true_divide_float64 x NaN = NaN"

text \<open>
  Source lines 260 to 283 with every operation rounding, in the order in which Python
  evaluates them: \<^verbatim>\<open>1.0 - A * coslat**2 - B * sinlat**2 - C * B * coslat**2 * cos(...)**2\<close>
  is \<open>((1 - A c\<^sup>2) - B s\<^sup>2) - (((C B) c\<^sup>2) k\<^sup>2)\<close>.
\<close>

definition geocentric_radius_float64 ::
  "TriaxialEllipsoid \<Rightarrow> real \<Rightarrow> real \<Rightarrow> real \<Rightarrow> error + npfloat" where
  "geocentric_radius_float64 self longitude latitude longitude_semimajor_axis =
     (let latitude_rad = np_radians_float64 latitude;
          longitude_rad = np_radians_float64 longitude;
          longitude_semimajor_axis_rad = np_radians_float64 longitude_semimajor_axis;
          coslat = np_cos_float64 latitude_rad;
          sinlat = np_sin_float64 latitude_rad;
          a = semimajor_axis self;
          b = semimedium_axis self;
          c = semiminor_axis self
      in case py_truediv_float64 (fsub a c) a of
           Inl e \<Rightarrow> Inl e
         | Inr f1 \<Rightarrow>
        (case py_truediv_float64 (fsub a b) a of
           Inl e \<Rightarrow> Inl e
         | Inr f2 \<Rightarrow>
             Inr (np_true_divide_float64 (fmul (fmul a (fsub 1 f1)) (fsub 1 f2))
                   (np_sqrt_float64
                     (fsub
                       (fsub
                         (fsub 1 (fmul (fsub (fmul 2 f1) (fpow2 f1)) (fpow2 coslat)))
                         (fmul (fsub (fmul 2 f2) (fpow2 f2)) (fpow2 sinlat)))
                       (fmul
                         (fmul
                           (fmul (fpow2 (fsub 1 f1)) (fsub (fmul 2 f2) (fpow2 f2)))
                           (fpow2 coslat))
                         (fpow2 (np_cos_float64
                                   (fsub longitude_rad longitude_semimajor_axis_rad)))))))))"

subsection \<open>The expression under the square root and the reference formula\<close>

text \<open>
  The expression under the square root in \<open>geocentric_radius\<close> (source lines 274 to 280) in
  exact real arithmetic, as a function of the two flattenings and of the three angles in
  radians.
\<close>

definition sqrt_argument :: "real \<Rightarrow> real \<Rightarrow> real \<Rightarrow> real \<Rightarrow> real \<Rightarrow> real" where
  "sqrt_argument f1 f2 phi lam lam_a =
     1 - (2 * f1 - f1\<^sup>2) * (cos phi)\<^sup>2 - (2 * f2 - f2\<^sup>2) * (sin phi)\<^sup>2
       - (1 - f1)\<^sup>2 * (2 * f2 - f2\<^sup>2) * (cos phi)\<^sup>2 * (cos (lam - lam_a))\<^sup>2"

text \<open>
  The reference formula of the specification (Pec and Martinec 1983, Eq. 1), written from
  the specification's words: \<open>R(\<phi>, \<lambda>) = a (1 - f1) (1 - f2) / sqrt (...)\<close> with
  \<open>f1 = (a - c) / a\<close> and \<open>f2 = (a - b) / a\<close>, the angles in radians, in plain real
  arithmetic.
\<close>

definition reference_radius :: "real \<Rightarrow> real \<Rightarrow> real \<Rightarrow> real \<Rightarrow> real \<Rightarrow> real \<Rightarrow> real" where
  "reference_radius a b c phi lam lam_a =
     (let f1 = (a - c) / a; f2 = (a - b) / a
      in a * (1 - f1) * (1 - f2) / sqrt (sqrt_argument f1 f2 phi lam lam_a))"

section \<open>Construction: success and failure\<close>

lemma init_success_iff:
  "TriaxialEllipsoid_init nm a b c gm omega lname rf = Inr (self, ws) \<longleftrightarrow>
     0 < c \<and> c \<le> b \<and> b \<le> a \<and>
     self = \<lparr>name = nm, semimajor_axis = a, semimedium_axis = b, semiminor_axis = c,
             geocentric_grav_const = gm, angular_velocity = omega,
             long_name = lname, reference = rf\<rparr> \<and>
     ws = (if gm < 0 then [UserWarning gm] else [])"
  by (auto simp: TriaxialEllipsoid_init_def check_semimajor_axis_def check_semimedium_axis_def
      check_semiminor_axis_def check_geocentric_grav_const_def raise_invalid_axis_def Let_def)

lemma init_failure:
  "\<not> (0 < c \<and> c \<le> b \<and> b \<le> a) \<Longrightarrow>
   TriaxialEllipsoid_init nm a b c gm omega lname rf =
     Inl (ValueError
       (if \<not> a > 0 then InvalidParameter SemiMajor a
        else if b > a then InvalidAxisOrdering a b c
        else if \<not> b > 0 then InvalidParameter SemiMedium b
        else if c > b then InvalidAxisOrdering a b c
        else InvalidParameter SemiMinor c))"
  by (auto simp: TriaxialEllipsoid_init_def check_semimajor_axis_def check_semimedium_axis_def
      check_semiminor_axis_def check_geocentric_grav_const_def raise_invalid_axis_def Let_def)

section \<open>The argument of the square root\<close>

text \<open>
  With \<open>p = 1 - f1 = c / a\<close> and \<open>q = 1 - f2 = b / a\<close> the argument of the square root
  exceeds \<open>p\<^sup>2 q\<^sup>2\<close> by a sum of two products of non-negative factors.
\<close>

lemma sqrt_argument_decomp:
  "sqrt_argument (1 - p) (1 - q) phi lam lam_a - p\<^sup>2 * q\<^sup>2 =
     p\<^sup>2 * (1 - q\<^sup>2) * ((cos phi)\<^sup>2 * (1 - (cos (lam - lam_a))\<^sup>2))
     + q\<^sup>2 * (1 - p\<^sup>2) * (sin phi)\<^sup>2"
proof -
  have s: "(sin phi)\<^sup>2 = 1 - (cos phi)\<^sup>2"
    by (simp add: sin_squared_eq)
  show ?thesis
    unfolding sqrt_argument_def s
    by (simp add: power2_eq_square algebra_simps)
qed


lemma sqrt_argument_lower:
  assumes "0 \<le> p" "p \<le> 1" "0 \<le> q" "q \<le> 1"
  shows "p\<^sup>2 * q\<^sup>2 \<le> sqrt_argument (1 - p) (1 - q) phi lam lam_a"
proof -
  have p2: "0 \<le> p\<^sup>2" "0 \<le> 1 - p\<^sup>2"
    using assms by (simp_all add: power_le_one)
  have q2: "0 \<le> q\<^sup>2" "0 \<le> 1 - q\<^sup>2"
    using assms by (simp_all add: power_le_one)
  have k: "0 \<le> 1 - (cos (lam - lam_a))\<^sup>2"
    by (simp add: abs_square_le_1)
  have t1: "0 \<le> p\<^sup>2 * (1 - q\<^sup>2) * ((cos phi)\<^sup>2 * (1 - (cos (lam - lam_a))\<^sup>2))"
    using p2(1) q2(2) k by (intro mult_nonneg_nonneg) simp_all
  have t2: "0 \<le> q\<^sup>2 * (1 - p\<^sup>2) * (sin phi)\<^sup>2"
    using p2(2) q2(1) by (intro mult_nonneg_nonneg) simp_all
  from t1 t2 sqrt_argument_decomp [of p q phi lam lam_a] show ?thesis
    by linarith
qed

lemma sqrt_argument_attained:
  "sqrt_argument (1 - p) (1 - q) 0 lam lam = p\<^sup>2 * q\<^sup>2"
  using sqrt_argument_decomp [of p q 0 lam lam] by simp

lemma min_of_three:
  assumes "0 \<le> (p::real)" "p \<le> 1" "0 \<le> (q::real)" "q \<le> 1"
  shows "min (p\<^sup>2 * q\<^sup>2) (min (q\<^sup>2) (p\<^sup>2)) = p\<^sup>2 * q\<^sup>2"
proof -
  have "p\<^sup>2 \<le> 1" "q\<^sup>2 \<le> 1" "0 \<le> p\<^sup>2" "0 \<le> q\<^sup>2"
    using assms by (auto intro: power_le_one)
  then have "p\<^sup>2 * q\<^sup>2 \<le> q\<^sup>2" "p\<^sup>2 * q\<^sup>2 \<le> p\<^sup>2"
    by (simp_all add: mult_left_le_one_le mult_right_le_one_le)
  then show ?thesis by simp
qed

lemma one_minus_flattening:
  "a \<noteq> 0 \<Longrightarrow> 1 - (a - x) / a = x / (a::real)"
  by (simp add: field_simps)

lemma geocentric_radius_unfold:
  assumes "semimajor_axis self \<noteq> 0"
  shows "geocentric_radius self longitude latitude lsa =
     Inr (np_true_divide
           (semimajor_axis self
             * (1 - (semimajor_axis self - semiminor_axis self) / semimajor_axis self)
             * (1 - (semimajor_axis self - semimedium_axis self) / semimajor_axis self))
           (np_sqrt (sqrt_argument
             ((semimajor_axis self - semiminor_axis self) / semimajor_axis self)
             ((semimajor_axis self - semimedium_axis self) / semimajor_axis self)
             (latitude * (pi / 180)) (longitude * (pi / 180)) (lsa * (pi / 180)))))"
  using assms
  by (simp add: geocentric_radius_def py_truediv_def np_radians_def sqrt_argument_def Let_def)

lemma sqrt_argument_valid_axes:
  assumes "0 < c" "c \<le> b" "b \<le> a"
  shows "(c / a)\<^sup>2 * (b / a)\<^sup>2 \<le> sqrt_argument ((a - c) / a) ((a - b) / a) phi lam lam_a"
    and "0 < (c / a)\<^sup>2 * (b / a)\<^sup>2"
    and "min ((1 - (a - c) / a)\<^sup>2 * (1 - (a - b) / a)\<^sup>2)
             (min ((1 - (a - b) / a)\<^sup>2) ((1 - (a - c) / a)\<^sup>2)) = (c / a)\<^sup>2 * (b / a)\<^sup>2"
    and "sqrt_argument ((a - c) / a) ((a - b) / a) 0 lam lam = (c / a)\<^sup>2 * (b / a)\<^sup>2"
proof -
  have a: "0 < a" "a \<noteq> 0" and b: "0 < b" using assms by simp_all
  have p: "0 \<le> c / a" "c / a \<le> 1" "0 < c / a" using assms a by simp_all
  have q: "0 \<le> b / a" "b / a \<le> 1" "0 < b / a" using assms a b by simp_all
  have f1: "(a - c) / a = 1 - c / a" and f2: "(a - b) / a = 1 - b / a"
    using a by (simp_all add: field_simps)
  show "(c / a)\<^sup>2 * (b / a)\<^sup>2 \<le> sqrt_argument ((a - c) / a) ((a - b) / a) phi lam lam_a"
    unfolding f1 f2 by (rule sqrt_argument_lower [OF p(1,2) q(1,2)])
  show "0 < (c / a)\<^sup>2 * (b / a)\<^sup>2"
    using p(3) q(3) by (intro mult_pos_pos zero_less_power)
  show "min ((1 - (a - c) / a)\<^sup>2 * (1 - (a - b) / a)\<^sup>2)
             (min ((1 - (a - b) / a)\<^sup>2) ((1 - (a - c) / a)\<^sup>2)) = (c / a)\<^sup>2 * (b / a)\<^sup>2"
    unfolding one_minus_flattening [OF a(2)] by (rule min_of_three [OF p(1,2) q(1,2)])
  show "sqrt_argument ((a - c) / a) ((a - b) / a) 0 lam lam = (c / a)\<^sup>2 * (b / a)\<^sup>2"
    unfolding f1 f2 by (rule sqrt_argument_attained)
qed


section \<open>Computing in binary64\<close>

text \<open>
  A real number \<open>x\<close> with \<open>2^52 \<le> \<bar>x\<bar> 2^k < 2^53\<close> has its unit in the last place at
  \<open>2 powr (- k)\<close>, and rounds to \<open>n / 2^k\<close> for the integer \<open>n\<close> within less than one half of
  \<open>x 2^k\<close>.
\<close>

lemma round_half_even_eqI:
  assumes "\<bar>q - of_int n\<bar> < 1 / 2"
  shows "round_half_even q = n"
proof -
  have "\<lfloor>q\<rfloor> = n \<or> \<lfloor>q\<rfloor> = n - 1" using assms by linarith
  then show ?thesis
  proof
    assume "\<lfloor>q\<rfloor> = n"
    moreover from this assms have "q - of_int n < 1 / 2" by linarith
    ultimately show ?thesis by (simp add: round_half_even_def Let_def)
  next
    assume f: "\<lfloor>q\<rfloor> = n - 1"
    then have "q < of_int n" by linarith
    with assms have "1 / 2 < q - of_int (n - 1)" by simp
    with f show ?thesis by (simp add: round_half_even_def Let_def)
  qed
qed

lemma round_binary64_eqI:
  assumes lo: "2 ^ 52 \<le> \<bar>x\<bar> * 2 ^ k" and hi: "\<bar>x\<bar> * 2 ^ k < 2 ^ 53"
    and k: "k \<le> 1074" and n: "\<bar>x * 2 ^ k - of_int n\<bar> < 1 / 2"
  shows "round_binary64 x = of_int n / 2 ^ k"
proof -
  have x: "x \<noteq> 0" using lo by auto
  have p: "(2::real) powr (of_int (52 - int k)) = 2 ^ 52 / 2 ^ k"
       "(2::real) powr (of_int (52 - int k + 1)) = 2 ^ 53 / 2 ^ k"
       "(2::real) powr (of_int (- int k)) = 1 / 2 ^ k"
    by (simp_all add: powr_diff powr_minus_divide powr_realpow powr_add)
  have "\<lfloor>log 2 \<bar>x\<bar>\<rfloor> = 52 - int k"
  proof (rule floor_log_eq_powr_iff [THEN iffD2])
    show "0 < \<bar>x\<bar>" using x by simp
    show "(1::real) < 2" by simp
    have "2 ^ 52 / 2 ^ k \<le> \<bar>x\<bar>" "\<bar>x\<bar> < 2 ^ 53 / 2 ^ k"
      using lo hi by (simp_all add: field_simps)
    then show "2 powr (of_int (52 - int k)) \<le> \<bar>x\<bar> \<and> \<bar>x\<bar> < 2 powr (of_int (52 - int k + 1))"
      unfolding p by simp
  qed
  moreover have "max (52 - int k) (- 1022) - 52 = - int k" using k by simp
  ultimately have e: "max \<lfloor>log 2 \<bar>x\<bar>\<rfloor> (- 1022) - 52 = - int k" by simp
  have "round_half_even (x * 2 ^ k) = n" using n by (rule round_half_even_eqI)
  then show ?thesis
    using x unfolding round_binary64_def e Let_def p by simp
qed

lemma round_binary64_0: "round_binary64 0 = 0"
  by (simp add: round_binary64_def)

lemma round_binary64_1: "round_binary64 1 = 1"
  using round_binary64_eqI [of 1 52 "2 ^ 52"] by simp

lemma float64_zero:
  "fsub x x = 0" "fmul 0 y = 0" "fmul x 0 = 0" "fpow2 0 = 0"
  "np_radians_float64 0 = 0" "np_cos_float64 0 = 1" "np_sin_float64 0 = 0"
  "py_truediv_float64 0 1000000000 = Inr 0"
  by (simp_all add: fsub_def fmul_def fpow2_def np_radians_float64_def np_cos_float64_def
      np_sin_float64_def py_truediv_float64_def round_binary64_0 round_binary64_1)

text \<open>
  On a sphere whose radius is a double every operation of the method is exact, and the
  binary64 method returns the radius as the exact-real method does.
\<close>

lemma sphere_geocentric_radius_float64:
  assumes "round_binary64 R = R" "0 < R" "R \<le> binary64_max"
  shows "geocentric_radius_float64
     \<lparr>name = nm, semimajor_axis = R, semimedium_axis = R, semiminor_axis = R,
      geocentric_grav_const = gm, angular_velocity = omega, long_name = lname,
      reference = rf\<rparr> longitude latitude longitude_semimajor_axis = Inr (Finite R)"
  using assms
  by (simp add: geocentric_radius_float64_def Let_def fsub_def fmul_def fpow2_def
      py_truediv_float64_def np_sqrt_float64_def round_binary64_0 round_binary64_1)

text \<open>
  The operations of the method at longitude, latitude and meridian \<open>0\<close> on the needle-shaped
  ellipsoid with axes \<open>(10^6, 1, 1)\<close>, in the order of evaluation, each with its correctly
  rounded result. Doubles are written as fractions in lowest terms.
\<close>

lemma needle_1: "fsub 1000000 1 = 999999"
  unfolding fsub_def using round_binary64_eqI [of "1000000 - 1" 33 "8589926002065408"] by simp

lemma needle_2: "py_truediv_float64 999999 1000000 = Inr (9007190247541737 / 9007199254740992)"
  unfolding py_truediv_float64_def using round_binary64_eqI [of "999999 / 1000000" 53 "9007190247541737"] by simp

lemma needle_3: "fsub 1 (9007190247541737 / 9007199254740992) = (9007199255 / 9007199254740992)"
  unfolding fsub_def using round_binary64_eqI [of "1 - (9007190247541737 / 9007199254740992)" 72 "4722366483005440"] by simp

lemma needle_4: "fmul 1000000 (9007199255 / 9007199254740992) = (140737488359375 / 140737488355328)"
  unfolding fmul_def using round_binary64_eqI [of "1000000 * (9007199255 / 9007199254740992)" 52 "4503599627500000"] by simp

lemma needle_5: "fmul (140737488359375 / 140737488355328) (9007199255 / 9007199254740992) = (4722366483141235 / 4722366482869645213696)"
  unfolding fmul_def using round_binary64_eqI [of "(140737488359375 / 140737488355328) * (9007199255 / 9007199254740992)" 72 "4722366483141235"] by simp

lemma needle_6: "fmul 2 (9007190247541737 / 9007199254740992) = (9007190247541737 / 4503599627370496)"
  unfolding fmul_def using round_binary64_eqI [of "2 * (9007190247541737 / 9007199254740992)" 52 "9007190247541737"] by simp

lemma needle_7: "fpow2 (9007190247541737 / 9007199254740992) = (9007181240351489 / 9007199254740992)"
  unfolding fpow2_def using round_binary64_eqI [of "(9007190247541737 / 9007199254740992) * (9007190247541737 / 9007199254740992)" 53 "9007181240351489"] by simp

lemma needle_8: "fsub (9007190247541737 / 4503599627370496) (9007181240351489 / 9007199254740992) = (9007199254731985 / 9007199254740992)"
  unfolding fsub_def using round_binary64_eqI [of "(9007190247541737 / 4503599627370496) - (9007181240351489 / 9007199254740992)" 53 "9007199254731985"] by simp

lemma needle_9: "fpow2 1 = 1"
  unfolding fpow2_def using round_binary64_eqI [of "1 * 1" 52 "4503599627370496"] by simp

lemma needle_10: "fmul (9007199254731985 / 9007199254740992) 1 = (9007199254731985 / 9007199254740992)"
  unfolding fmul_def using round_binary64_eqI [of "(9007199254731985 / 9007199254740992) * 1" 53 "9007199254731985"] by simp

lemma needle_11: "fsub 1 (9007199254731985 / 9007199254740992) = (9007 / 9007199254740992)"
  unfolding fsub_def using round_binary64_eqI [of "1 - (9007199254731985 / 9007199254740992)" 92 "4951650615689216"] by simp

lemma needle_12: "fsub (9007 / 9007199254740992) 0 = (9007 / 9007199254740992)"
  unfolding fsub_def using round_binary64_eqI [of "(9007 / 9007199254740992) - 0" 92 "4951650615689216"] by simp

lemma needle_13: "fpow2 (9007199255 / 9007199254740992) = (4951760157426303 / 4951760157141521099596496896)"
  unfolding fpow2_def using round_binary64_eqI [of "(9007199255 / 9007199254740992) * (9007199255 / 9007199254740992)" 92 "4951760157426303"] by simp

lemma needle_14: "fmul (4951760157426303 / 4951760157141521099596496896) (9007199254731985 / 9007199254740992) = (4951760157421351 / 4951760157141521099596496896)"
  unfolding fmul_def using round_binary64_eqI [of "(4951760157426303 / 4951760157141521099596496896) * (9007199254731985 / 9007199254740992)" 92 "4951760157421351"] by simp

lemma needle_15: "fmul (4951760157421351 / 4951760157141521099596496896) 1 = (4951760157421351 / 4951760157141521099596496896)"
  unfolding fmul_def using round_binary64_eqI [of "(4951760157421351 / 4951760157141521099596496896) * 1" 92 "4951760157421351"] by simp

lemma needle_16: "fsub (9007 / 9007199254740992) (4951760157421351 / 4951760157141521099596496896) = (- (109541732135 / 4951760157141521099596496896))"
  unfolding fsub_def using round_binary64_eqI [of "(9007 / 9007199254740992) - (4951760157421351 / 4951760157141521099596496896)" 108 "- 7178926957199360"] by simp

lemmas needle_steps = needle_1 needle_2 needle_3 needle_4 needle_5 needle_6 needle_7 needle_8
  needle_9 needle_10 needle_11 needle_12 needle_13 needle_14 needle_15 needle_16

text \<open>The same on the disc-shaped ellipsoid with axes \<open>(10^9, 10^9, 1)\<close>.\<close>

lemma disc_1: "fsub 1000000000 1 = 999999999"
  unfolding fsub_def using round_binary64_eqI [of "1000000000 - 1" 23 "8388607991611392"] by simp

lemma disc_2: "py_truediv_float64 999999999 1000000000 = Inr (9007199245733793 / 9007199254740992)"
  unfolding py_truediv_float64_def using round_binary64_eqI [of "999999999 / 1000000000" 53 "9007199245733793"] by simp

lemma disc_3: "fsub 1 (9007199245733793 / 9007199254740992) = (9007199 / 9007199254740992)"
  unfolding fsub_def using round_binary64_eqI [of "1 - (9007199245733793 / 9007199254740992)" 82 "4835703141695488"] by simp

lemma disc_4: "fmul 1000000000 (9007199 / 9007199254740992) = (17592185546875 / 17592186044416)"
  unfolding fmul_def using round_binary64_eqI [of "1000000000 * (9007199 / 9007199254740992)" 53 "9007199000000000"] by simp

lemma disc_5: "fsub 1 0 = 1"
  unfolding fsub_def using round_binary64_eqI [of "1 - 0" 52 "4503599627370496"] by simp

lemma disc_6: "fmul (17592185546875 / 17592186044416) 1 = (17592185546875 / 17592186044416)"
  unfolding fmul_def using round_binary64_eqI [of "(17592185546875 / 17592186044416) * 1" 53 "9007199000000000"] by simp

lemma disc_7: "fmul 2 (9007199245733793 / 9007199254740992) = (9007199245733793 / 4503599627370496)"
  unfolding fmul_def using round_binary64_eqI [of "2 * (9007199245733793 / 9007199254740992)" 52 "9007199245733793"] by simp

lemma disc_8: "fpow2 (9007199245733793 / 9007199254740992) = (4503599618363297 / 4503599627370496)"
  unfolding fpow2_def using round_binary64_eqI [of "(9007199245733793 / 9007199254740992) * (9007199245733793 / 9007199254740992)" 53 "9007199236726594"] by simp

lemma disc_9: "fsub (9007199245733793 / 4503599627370496) (4503599618363297 / 4503599627370496) = 1"
  unfolding fsub_def using round_binary64_eqI [of "(9007199245733793 / 4503599627370496) - (4503599618363297 / 4503599627370496)" 52 "4503599627370496"] by simp

lemma disc_10: "fpow2 1 = 1"
  unfolding fpow2_def using round_binary64_eqI [of "1 * 1" 52 "4503599627370496"] by simp

lemma disc_11: "fmul 1 1 = 1"
  unfolding fmul_def using round_binary64_eqI [of "1 * 1" 52 "4503599627370496"] by simp

lemma disc_12: "fpow2 (9007199 / 9007199254740992) = (81129633825601 / 81129638414606681695789005144064)"
  unfolding fpow2_def using round_binary64_eqI [of "(9007199 / 9007199254740992) * (9007199 / 9007199254740992)" 112 "5192296564838464"] by simp

lemmas disc_steps = disc_1 disc_2 disc_3 disc_4 disc_5 disc_6 disc_7 disc_8 disc_9 disc_10
  disc_11 disc_12

text \<open>On the equator, on the meridian of the semimajor axis, the reference radius is \<open>a\<close>.\<close>

lemma reference_radius_equator:
  assumes "0 < c" "c \<le> b" "b \<le> a"
  shows "reference_radius a b c 0 lam lam = a"
proof -
  have a: "0 < a" "a \<noteq> 0" and b: "0 < b" using assms by simp_all
  have "sqrt (sqrt_argument ((a - c) / a) ((a - b) / a) 0 lam lam) = (c / a) * (b / a)"
    unfolding sqrt_argument_valid_axes(4) [OF assms]
    using assms a b by (simp add: real_sqrt_mult)
  then show ?thesis
    using assms a b by (simp add: reference_radius_def Let_def one_minus_flattening)
qed

section \<open>Geocentric radius against the reference formula\<close>

text \<open>
  Claim C1, as stated: for every ellipsoid returned by the constructor and all inputs,
  \<open>geocentric_radius\<close> equals the reference formula \<open>R(\<phi>, \<lambda>)\<close>. It does not hold of the
  method as it computes, in binary64: on the valid ellipsoid with axes \<open>(10^9, 10^9, 1)\<close>, at
  longitude, latitude and meridian \<open>0\<close>, the expression under the square root rounds to \<open>0\<close>
  and the method returns infinity, where the reference formula gives \<open>10^9\<close>.
\<close>

theorem geocentric_radius_reference_counterexample:
  "TriaxialEllipsoid_init ''E'' 1000000000 1000000000 1 1 1 None None =
     Inr (\<lparr>name = ''E'', semimajor_axis = 1000000000, semimedium_axis = 1000000000,
           semiminor_axis = 1, geocentric_grav_const = 1, angular_velocity = 1,
           long_name = None, reference = None\<rparr>, []) \<and>
   geocentric_radius_float64
     \<lparr>name = ''E'', semimajor_axis = 1000000000, semimedium_axis = 1000000000,
      semiminor_axis = 1, geocentric_grav_const = 1, angular_velocity = 1,
      long_name = None, reference = None\<rparr> 0 0 0 = Inr PosInf \<and>
   reference_radius 1000000000 1000000000 1 0 0 0 = 1000000000"
  by (simp add: init_success_iff reference_radius_equator geocentric_radius_float64_def Let_def
      float64_zero disc_steps np_sqrt_float64_def round_binary64_0)

text \<open>
  Claim C1, amended. For every ellipsoid returned by the constructor and all real inputs in
  degrees, \<open>geocentric_radius\<close> evaluated in exact real arithmetic returns a finite number
  equal to the reference formula \<open>R(\<phi>, \<lambda>)\<close> at the ellipsoid's own axes and at the three
  inputs multiplied by \<open>\<pi>/180\<close>. In binary64 the method evaluates the same expression with
  every operation rounded, and is not bound to that value.
\<close>

theorem geocentric_radius_reference:
  assumes "TriaxialEllipsoid_init nm a b c gm omega lname rf = Inr (self, ws)"
  shows "geocentric_radius self longitude latitude longitude_semimajor_axis =
           Inr (Finite (reference_radius
                  (semimajor_axis self) (semimedium_axis self) (semiminor_axis self)
                  (latitude * (pi / 180)) (longitude * (pi / 180))
                  (longitude_semimajor_axis * (pi / 180))))"
proof -
  from assms have ax: "0 < c" "c \<le> b" "b \<le> a"
    and sel: "semimajor_axis self = a" "semimedium_axis self = b" "semiminor_axis self = c"
    by (simp_all add: init_success_iff)
  let ?D = "sqrt_argument ((a - c) / a) ((a - b) / a) (latitude * (pi / 180))
              (longitude * (pi / 180)) (longitude_semimajor_axis * (pi / 180))"
  have "0 < ?D"
    using sqrt_argument_valid_axes(1,2) [OF ax] by (rule less_le_trans [rotated])
  then have "\<not> ?D < 0" "sqrt ?D \<noteq> 0" by simp_all
  moreover have "a \<noteq> 0" using ax by simp
  ultimately show ?thesis
    by (simp add: geocentric_radius_unfold sel np_sqrt_def reference_radius_def Let_def)
qed

theorem geocentric_radius_reference_witness:
  "geocentric_radius
     \<lparr>name = ''VESTA'', semimajor_axis = 286300, semimedium_axis = 278600,
      semiminor_axis = 223200, geocentric_grav_const = 17290940000,
      angular_velocity = 0, long_name = None, reference = None\<rparr> 30 45 10 =
   Inr (Finite (reference_radius 286300 278600 223200
                  (45 * (pi / 180)) (30 * (pi / 180)) (10 * (pi / 180))))"
proof -
  have h: "TriaxialEllipsoid_init ''VESTA'' 286300 278600 223200 17290940000 0 None None =
        Inr (\<lparr>name = ''VESTA'', semimajor_axis = 286300, semimedium_axis = 278600,
              semiminor_axis = 223200, geocentric_grav_const = 17290940000,
              angular_velocity = 0, long_name = None, reference = None\<rparr>, [])"
    by (simp add: init_success_iff)
  show ?thesis
    using geocentric_radius_reference [OF h, of 30 45 10] by simp
qed

section \<open>Mean radius and volume\<close>

text \<open>
  Claim C2. For all axes with \<open>a \<ge> b \<ge> c > 0\<close>, and any name, gravitational constant and
  angular velocity, the construction succeeds, and on the object it returns the mean radius
  is \<open>(a + b + c) / 3\<close> and the volume is \<open>(4/3) \<pi> a b c\<close>.
\<close>

theorem mean_radius_volume:
  assumes "a \<ge> b" "b \<ge> c" "c > 0"
  shows "\<exists>self ws. TriaxialEllipsoid_init nm a b c gm omega lname rf = Inr (self, ws)
           \<and> mean_radius self = (a + b + c) / 3
           \<and> volume self = 4 / 3 * pi * a * b * c"
  using assms by (simp add: init_success_iff mean_radius_def volume_def)

theorem mean_radius_volume_witness:
  "(278600::real) \<le> 286300 \<and> (223200::real) \<le> 278600 \<and> (0::real) < 223200 \<and>
   (\<exists>self ws. TriaxialEllipsoid_init ''VESTA'' 286300 278600 223200 17290940000 0 None None
                = Inr (self, ws)
           \<and> mean_radius self = (286300 + 278600 + 223200) / 3
           \<and> volume self = 4 / 3 * pi * 286300 * 278600 * 223200)"
proof -
  have h: "(278600::real) \<le> 286300" "(223200::real) \<le> 278600" "(0::real) < 223200"
    by simp_all
  from mean_radius_volume [OF h, of "''VESTA''" 17290940000 0 None None] h
  show ?thesis by blast
qed


section \<open>Validation failures\<close>

text \<open>
  Claim C3, as stated: whenever one of the three axes is not positive the construction
  fails with the per-axis positivity error. It does not hold where the semimajor axis is
  positive and the semimedium axis exceeds it: the ordering check of the semimajor
  validator runs before the positivity checks of the other two axes.
\<close>

theorem nonpositive_axis_counterexample:
  "((100::real) \<le> 0 \<or> (150::real) \<le> 0 \<or> (-1::real) \<le> 0) \<and>
   TriaxialEllipsoid_init ''E'' 100 150 (-1) 1 1 None None =
     Inl (ValueError (InvalidAxisOrdering 100 150 (-1))) \<and>
   \<not> fails_with_InvalidParameter (TriaxialEllipsoid_init ''E'' 100 150 (-1) 1 1 None None)"
  by (simp add: init_failure)

text \<open>
  Claim C3, amended. Whenever one of the three axes is not positive the construction fails
  and returns no object. The error is the positivity error of the first non-positive axis
  in the order major, medium, minor, carrying that axis and its value, except when the
  semimajor axis is positive and the semimedium axis exceeds it: then it is the ordering
  error carrying all three axes.
\<close>

theorem nonpositive_axis_fails:
  assumes "a \<le> 0 \<or> b \<le> 0 \<or> c \<le> 0"
  shows "TriaxialEllipsoid_init nm a b c gm omega lname rf =
           Inl (ValueError
             (if a \<le> 0 then InvalidParameter SemiMajor a
              else if b > a then InvalidAxisOrdering a b c
              else if b \<le> 0 then InvalidParameter SemiMedium b
              else InvalidParameter SemiMinor c))"
  using assms by (auto simp: init_failure)

theorem nonpositive_axis_fails_witness:
  "((1::real) \<le> 0 \<or> (1::real) \<le> 0 \<or> (-1::real) \<le> 0) \<and>
   TriaxialEllipsoid_init ''E'' 1 1 (-1) 1 1 None None =
     Inl (ValueError (InvalidParameter SemiMinor (-1)))"
proof -
  have h: "(1::real) \<le> 0 \<or> (1::real) \<le> 0 \<or> (-1::real) \<le> 0" by simp
  show ?thesis
    using nonpositive_axis_fails [OF h, of "''E''" 1 1 None None] by simp
qed

text \<open>
  Claim C4, as stated: whenever the semimedium axis exceeds the semimajor axis or the
  semiminor axis exceeds the semimedium axis, the construction fails with the ordering
  error. It does not hold where the semimajor axis is not positive: its positivity check
  comes first.
\<close>

theorem axis_ordering_counterexample:
  "((5::real) > -1 \<or> (1::real) > 5) \<and>
   TriaxialEllipsoid_init ''E'' (-1) 5 1 1 1 None None =
     Inl (ValueError (InvalidParameter SemiMajor (-1))) \<and>
   \<not> fails_with_InvalidAxisOrdering (TriaxialEllipsoid_init ''E'' (-1) 5 1 1 1 None None)"
  by (simp add: init_failure)

text \<open>
  Claim C4, amended. Whenever \<open>b > a\<close> or \<open>c > b\<close> the construction fails. The error is the
  ordering error carrying all three axis values when the semimajor and the semimedium
  axes are both positive; otherwise it is the positivity error of the semimajor axis,
  or, that one being positive, of the semimedium axis.
\<close>

theorem axis_ordering_fails:
  assumes "b > a \<or> c > b"
  shows "TriaxialEllipsoid_init nm a b c gm omega lname rf =
           Inl (ValueError
             (if a \<le> 0 then InvalidParameter SemiMajor a
              else if b \<le> 0 then InvalidParameter SemiMedium b
              else InvalidAxisOrdering a b c))"
  using assms by (auto simp: init_failure)

theorem axis_ordering_fails_witness:
  "((150::real) > 100 \<or> (50::real) > 150) \<and>
   TriaxialEllipsoid_init ''E'' 100 150 50 1 1 None None =
     Inl (ValueError (InvalidAxisOrdering 100 150 50))"
proof -
  have h: "(150::real) > 100 \<or> (50::real) > 150" by simp
  show ?thesis
    using axis_ordering_fails [OF h, of "''E''" 1 1 None None] by simp
qed

text \<open>
  Claim C5. Validation precedence: a non-positive semimajor axis makes the construction
  fail with the positivity error of that axis, whatever the other axes are (also when the
  semimedium axis exceeds it); and the semimajor validator raises the ordering error only
  for a positive value that the semimedium axis exceeds.
\<close>

theorem semimajor_positivity_first:
  "(a \<le> 0 \<longrightarrow>
      TriaxialEllipsoid_init nm a b c gm omega lname rf =
        Inl (ValueError (InvalidParameter SemiMajor a))) \<and>
   (fails_with_InvalidAxisOrdering (check_semimajor_axis self val) \<longrightarrow>
      0 < val \<and> val < semimedium_axis self)"
  by (auto simp: init_failure check_semimajor_axis_def raise_invalid_axis_def)

theorem semimajor_positivity_first_witness:
  "(-1::real) \<le> 0 \<and> (-1::real) < 5 \<and>
   TriaxialEllipsoid_init ''E'' (-1) 5 1 1 1 None None =
     Inl (ValueError (InvalidParameter SemiMajor (-1))) \<and>
   fails_with_InvalidAxisOrdering
     (check_semimajor_axis
        \<lparr>name = ''E'', semimajor_axis = 100, semimedium_axis = 150, semiminor_axis = 50,
         geocentric_grav_const = 1, angular_velocity = 1, long_name = None,
         reference = None\<rparr> 100) \<and>
   (0::real) < 100 \<and> (100::real) < 150"
  using semimajor_positivity_first [of "-1" "''E''" 5 1 1 1 None None
      "\<lparr>name = ''E'', semimajor_axis = 100, semimedium_axis = 150, semiminor_axis = 50,
         geocentric_grav_const = 1, angular_velocity = 1, long_name = None,
         reference = None\<rparr>" 100]
  by (simp add: check_semimajor_axis_def raise_invalid_axis_def)

section \<open>Negative gravitational constant\<close>

text \<open>
  Claim C6. With valid axes and a negative geocentric gravitational constant the
  construction succeeds, issues exactly the warning carrying that value, and every field
  of the object is the corresponding constructor argument.
\<close>

theorem negative_grav_const_warns:
  assumes "gm < 0" "a \<ge> b" "b \<ge> c" "c > 0"
  shows "TriaxialEllipsoid_init nm a b c gm omega lname rf =
           Inr (\<lparr>name = nm, semimajor_axis = a, semimedium_axis = b, semiminor_axis = c,
                 geocentric_grav_const = gm, angular_velocity = omega,
                 long_name = lname, reference = rf\<rparr>,
                [UserWarning gm])"
  using assms by (simp add: init_success_iff)

theorem negative_grav_const_warns_witness:
  "(-5::real) < 0 \<and> (2::real) \<le> 3 \<and> (1::real) \<le> 2 \<and> (0::real) < 1 \<and>
   TriaxialEllipsoid_init ''E'' 3 2 1 (-5) 7 (Some ''long'') None =
     Inr (\<lparr>name = ''E'', semimajor_axis = 3, semimedium_axis = 2, semiminor_axis = 1,
           geocentric_grav_const = -5, angular_velocity = 7,
           long_name = Some ''long'', reference = None\<rparr>,
          [UserWarning (-5)])"
proof -
  have h: "(-5::real) < 0" "(2::real) \<le> 3" "(1::real) \<le> 2" "(0::real) < 1" by simp_all
  show ?thesis
    using negative_grav_const_warns [OF h, of "''E''" 7 "Some ''long''" None] by simp
qed

section \<open>The sphere\<close>

text \<open>
  Claim C7. For \<open>a = b = c = R > 0\<close> the construction succeeds and the geocentric radius is
  \<open>R\<close> at every longitude and latitude, for every meridian of the semimajor axis (so also
  for its default \<open>0\<close>).
\<close>

theorem sphere_geocentric_radius:
  assumes "R > 0"
  shows "\<exists>self ws. TriaxialEllipsoid_init nm R R R gm omega lname rf = Inr (self, ws)
           \<and> (\<forall>longitude latitude longitude_semimajor_axis.
                 geocentric_radius self longitude latitude longitude_semimajor_axis
                   = Inr (Finite R))"
  using assms
  by (simp add: init_success_iff geocentric_radius_def py_truediv_def np_sqrt_def Let_def)

theorem sphere_geocentric_radius_witness:
  "(0::real) < 5 \<and>
   TriaxialEllipsoid_init ''S'' 5 5 5 1 1 None None =
     Inr (\<lparr>name = ''S'', semimajor_axis = 5, semimedium_axis = 5, semiminor_axis = 5,
           geocentric_grav_const = 1, angular_velocity = 1, long_name = None,
           reference = None\<rparr>, []) \<and>
   geocentric_radius
     \<lparr>name = ''S'', semimajor_axis = 5, semimedium_axis = 5, semiminor_axis = 5,
      geocentric_grav_const = 1, angular_velocity = 1, long_name = None,
      reference = None\<rparr> 30 45 0 = Inr (Finite 5)"
proof -
  have h: "(0::real) < 5" by simp
  show ?thesis
    using sphere_geocentric_radius [OF h, of "''S''" 1 1 None None]
    by (auto simp: init_success_iff)
qed

section \<open>Equal axes\<close>

text \<open>
  Claim C8. Permissive equality: with all axes positive, \<open>b = a\<close> or \<open>c = b\<close> raises no
  error; the construction then succeeds unless one of the two pairs is strictly out of
  order. The ordering error is raised exactly for \<open>b > a\<close> or \<open>c > b\<close> (with positive
  semimajor and semimedium axes), never for equal axes.
\<close>

theorem permissive_equality:
  "(0 < a \<and> 0 < b \<and> 0 < c \<and> (b = a \<or> c = b) \<and> b \<le> a \<and> c \<le> b \<longrightarrow>
      TriaxialEllipsoid_init nm a b c gm omega lname rf =
        Inr (\<lparr>name = nm, semimajor_axis = a, semimedium_axis = b, semiminor_axis = c,
              geocentric_grav_const = gm, angular_velocity = omega,
              long_name = lname, reference = rf\<rparr>,
             if gm < 0 then [UserWarning gm] else [])) \<and>
   (fails_with_InvalidAxisOrdering (TriaxialEllipsoid_init nm a b c gm omega lname rf) \<longleftrightarrow>
      0 < a \<and> 0 < b \<and> (b > a \<or> c > b))"
proof (intro conjI impI)
  assume "0 < a \<and> 0 < b \<and> 0 < c \<and> (b = a \<or> c = b) \<and> b \<le> a \<and> c \<le> b"
  then show "TriaxialEllipsoid_init nm a b c gm omega lname rf =
        Inr (\<lparr>name = nm, semimajor_axis = a, semimedium_axis = b, semiminor_axis = c,
              geocentric_grav_const = gm, angular_velocity = omega,
              long_name = lname, reference = rf\<rparr>,
             if gm < 0 then [UserWarning gm] else [])"
    by (simp add: init_success_iff)
next
  show "fails_with_InvalidAxisOrdering (TriaxialEllipsoid_init nm a b c gm omega lname rf) \<longleftrightarrow>
      0 < a \<and> 0 < b \<and> (b > a \<or> c > b)"
  proof (cases "0 < c \<and> c \<le> b \<and> b \<le> a")
    case True
    then have "TriaxialEllipsoid_init nm a b c gm omega lname rf =
        Inr (\<lparr>name = nm, semimajor_axis = a, semimedium_axis = b, semiminor_axis = c,
              geocentric_grav_const = gm, angular_velocity = omega,
              long_name = lname, reference = rf\<rparr>,
             if gm < 0 then [UserWarning gm] else [])"
      by (simp add: init_success_iff)
    with True show ?thesis by auto
  next
    case False
    then show ?thesis
      by (auto simp: init_failure)
  qed
qed

theorem permissive_equality_witness:
  "(0::real) < 2 \<and> (0::real) < 1 \<and> (2::real) = 2 \<and> (1::real) \<le> 2 \<and>
   TriaxialEllipsoid_init ''E'' 2 2 1 1 1 None None =
     Inr (\<lparr>name = ''E'', semimajor_axis = 2, semimedium_axis = 2, semiminor_axis = 1,
           geocentric_grav_const = 1, angular_velocity = 1, long_name = None,
           reference = None\<rparr>, []) \<and>
   \<not> fails_with_InvalidAxisOrdering (TriaxialEllipsoid_init ''E'' 2 2 1 1 1 None None)"
  using permissive_equality [of 2 2 1 "''E''" 1 1 None None] by simp

section \<open>The sign of the expression under the square root\<close>

text \<open>
  Claim C10, as stated: the expression under the square root is positive for every valid
  ellipsoid, so the domain-error branch of the square root is unreachable. The conclusion
  does not hold of the method as it computes, in binary64: on the valid ellipsoid with axes
  \<open>(10^6, 1, 1)\<close>, at longitude, latitude and meridian \<open>0\<close>, the rounded expression is
  negative and the method returns not-a-number.
\<close>

theorem sqrt_argument_positive_counterexample:
  "TriaxialEllipsoid_init ''E'' 1000000 1 1 1 1 None None =
     Inr (\<lparr>name = ''E'', semimajor_axis = 1000000, semimedium_axis = 1,
           semiminor_axis = 1, geocentric_grav_const = 1, angular_velocity = 1,
           long_name = None, reference = None\<rparr>, []) \<and>
   geocentric_radius_float64
     \<lparr>name = ''E'', semimajor_axis = 1000000, semimedium_axis = 1,
      semiminor_axis = 1, geocentric_grav_const = 1, angular_velocity = 1,
      long_name = None, reference = None\<rparr> 0 0 0 = Inr NaN"
  by (simp add: init_success_iff geocentric_radius_float64_def Let_def
      float64_zero needle_steps np_sqrt_float64_def)

text \<open>
  Claim C10, amended. For every ellipsoid returned by the constructor, with
  \<open>f1 = (a - c) / a\<close> and \<open>f2 = (a - b) / a\<close>, the expression under the square root in
  \<open>geocentric_radius\<close> is, in exact real arithmetic and at all real angles, at least
  \<open>min ((1 - f1)\<^sup>2 (1 - f2)\<^sup>2, (1 - f2)\<^sup>2, (1 - f1)\<^sup>2)\<close>; this bound is positive and is
  attained (on the equator, on the meridian of the semimajor axis). In binary64 the rounded
  expression can be zero or negative for valid ellipsoids of extreme axis ratio, and the
  method then returns infinity or not-a-number.
\<close>

theorem sqrt_argument_positive:
  fixes a b c :: real
  defines "f1 \<equiv> (a - c) / a" and "f2 \<equiv> (a - b) / a"
  defines "m \<equiv> min ((1 - f1)\<^sup>2 * (1 - f2)\<^sup>2) (min ((1 - f2)\<^sup>2) ((1 - f1)\<^sup>2))"
  assumes "TriaxialEllipsoid_init nm a b c gm omega lname rf = Inr (self, ws)"
  shows "0 < m
       \<and> m \<le> sqrt_argument f1 f2 phi lam lam_a
       \<and> sqrt_argument f1 f2 0 lam_a lam_a = m"
proof -
  from assms(4) have ax: "0 < c" "c \<le> b" "b \<le> a"
    by (simp_all add: init_success_iff)
  have m: "m = (c / a)\<^sup>2 * (b / a)\<^sup>2"
    unfolding m_def f1_def f2_def by (rule sqrt_argument_valid_axes(3) [OF ax])
  have pos: "0 < m"
    unfolding m by (rule sqrt_argument_valid_axes(2) [OF ax])
  have low: "m \<le> sqrt_argument f1 f2 phi lam lam_a"
    unfolding m f1_def f2_def by (rule sqrt_argument_valid_axes(1) [OF ax])
  have att: "sqrt_argument f1 f2 0 lam_a lam_a = m"
    unfolding m f1_def f2_def by (rule sqrt_argument_valid_axes(4) [OF ax])
  from pos low att show ?thesis by simp
qed

theorem sqrt_argument_positive_witness:
  "TriaxialEllipsoid_init ''E'' 3 2 1 1 1 None None =
     Inr (\<lparr>name = ''E'', semimajor_axis = 3, semimedium_axis = 2, semiminor_axis = 1,
           geocentric_grav_const = 1, angular_velocity = 1, long_name = None,
           reference = None\<rparr>, []) \<and>
   (0::real) < min ((1 - (3 - 1) / 3)\<^sup>2 * (1 - (3 - 2) / 3)\<^sup>2)
                   (min ((1 - (3 - 2) / 3)\<^sup>2) ((1 - (3 - 1) / 3)\<^sup>2)) \<and>
   min ((1 - (3 - 1) / 3)\<^sup>2 * (1 - (3 - 2) / 3)\<^sup>2)
       (min ((1 - (3 - 2) / 3)\<^sup>2) ((1 - (3 - 1) / 3)\<^sup>2))
     \<le> sqrt_argument ((3 - 1) / 3) ((3 - 2) / 3) (pi / 2) 0 0 \<and>
   sqrt_argument ((3 - 1) / 3) ((3 - 2) / 3) 0 0 0 =
     min ((1 - (3 - 1) / 3)\<^sup>2 * (1 - (3 - 2) / 3)\<^sup>2)
         (min ((1 - (3 - 2) / 3)\<^sup>2) ((1 - (3 - 1) / 3)\<^sup>2))"
proof -
  have h: "TriaxialEllipsoid_init ''E'' 3 2 1 1 1 None None =
     Inr (\<lparr>name = ''E'', semimajor_axis = 3, semimedium_axis = 2, semiminor_axis = 1,
           geocentric_grav_const = 1, angular_velocity = 1, long_name = None,
           reference = None\<rparr>, [])"
    by (simp add: init_success_iff)
  from sqrt_argument_positive [OF h, where phi = "pi / 2" and lam = 0 and lam_a = 0] h
  show ?thesis by blast
qed

end
